theory Spec2Isabelle
  imports Main
begin

section \<open>Data model of RenderProvider\<close>

text \<open>
  The embedding follows the class \<open>RenderProvider\<close> of \<open>src/render/components/Link.js\<close>
  (the second document of that file). Objects used as dictionaries are maps from
  property names; the object spread \<open>{...a, ...b}\<close> is \<open>a ++ b\<close>, where the
  right operand wins on a common key. Identifiers are strings, as the interface
  \<open>RenderProviderState\<close> declares them (\<open>loadedPages: Set<string>\<close>); the only falsy
  string of JavaScript is the empty one.
\<close>

datatype json =
    JNull
  | JBool bool
  | JNum int
  | JStr string
  | JArr "json list"
  | JObj "(string \<times> json) list"

type_synonym 'v dict = "string \<rightharpoonup> 'v"

text \<open>Truthiness of a JavaScript value, as \<open>!v\<close> and \<open>v || w\<close> test it.\<close>

fun truthy :: "json \<Rightarrow> bool" where
  "truthy JNull = False"
| "truthy (JBool b) = b"
| "truthy (JNum n) = (n \<noteq> 0)"
| "truthy (JStr s) = (s \<noteq> [])"
| "truthy (JArr _) = True"
| "truthy (JObj _) = True"

text \<open>An entry of \<open>pages\<close>: \<open>allowConditions\<close> is the truthiness of the property.\<close>

record Page =
  allowConditions :: bool
  declarer :: "string option"
  title :: "string option"

record Route =
  route_id :: string
  route_path :: string
  route_params :: json
  route_domain :: "string option"
  canonicalPath :: "string option"

text \<open>The \<open>navigationRoute\<close> of a history state: \<open>{id, params, path}\<close>.\<close>

record NavigationRoute =
  nav_id :: string
  nav_params :: json
  nav_path :: string

text \<open>\<open>{...route, ...navigationRoute}\<close>: the three properties of the right operand win.\<close>

definition spreadNavigationRoute :: "Route \<Rightarrow> NavigationRoute \<Rightarrow> Route" where
  "spreadNavigationRoute r n =
     r\<lparr>route_id := nav_id n, route_params := nav_params n, route_path := nav_path n\<rparr>"

text \<open>
  The \<open>matchingPage\<close> of the legacy navigation query: an object that may carry any of
  the properties of a route; \<open>{...transientRoute, ...matchingPage}\<close> takes those it has.
\<close>

record RoutePatch =
  patch_id :: "string option"
  patch_path :: "string option"
  patch_params :: "json option"
  patch_domain :: "string option"
  patch_canonicalPath :: "string option"

definition spreadRoutePatch :: "Route \<Rightarrow> RoutePatch \<Rightarrow> Route" where
  "spreadRoutePatch r p =
     \<lparr> route_id = (case patch_id p of None \<Rightarrow> route_id r | Some v \<Rightarrow> v),
       route_path = (case patch_path p of None \<Rightarrow> route_path r | Some v \<Rightarrow> v),
       route_params = (case patch_params p of None \<Rightarrow> route_params r | Some v \<Rightarrow> v),
       route_domain = (case patch_domain p of None \<Rightarrow> route_domain r | Some v \<Rightarrow> Some v),
       canonicalPath =
         (case patch_canonicalPath p of None \<Rightarrow> canonicalPath r | Some v \<Rightarrow> Some v) \<rparr>"

text \<open>
  The \<open>matchingPage\<close> of a server page: stored as the route, and read for its
  \<open>routeId\<close>.
\<close>

record MatchingServerPage =
  routeId :: string
  asRoute :: Route

text \<open>\<open>RenderScrollOptions\<close>: \<open>false\<close>, or the options of a scroll.\<close>

record ScrollToOptions =
  top :: "int option"
  left :: "int option"

datatype RenderScrollOptions = ScrollFalse | ScrollOptions ScrollToOptions

text \<open>
  The state of a history location. Any script of the page may push one, so the
  marker \<open>renderRouting\<close> is whatever value it was given, if any; the framework
  itself writes \<open>true\<close>.
\<close>

record LocationState =
  navigationRoute :: NavigationRoute
  fetchPage :: "bool option"
  scrollOptions :: "RenderScrollOptions option"
  renderRouting :: "json option"

text \<open>\<open>state.renderRouting\<close> as a condition: the property is there and truthy.\<close>

definition markerTruthy :: "LocationState \<Rightarrow> bool" where
  "markerTruthy s = (case renderRouting s of None \<Rightarrow> False | Some v \<Rightarrow> truthy v)"

text \<open>The marker in the words of the specification: \<open>renderRouting === true\<close>.\<close>

definition markerIsTrue :: "LocationState \<Rightarrow> bool" where
  "markerIsTrue s = (renderRouting s = Some (JBool True))"

record RenderHistoryLocation =
  pathname :: string
  search :: string
  locationState :: "LocationState option"

record Culture =
  cultureLocale :: string

record RenderProviderState =
  appsEtag :: string
  cacheHints :: "json dict dict"
  components :: "json dict"
  culture :: Culture
  defaultExtensions :: "json dict"
  device :: string
  extensions :: "json dict"
  messages :: "string dict"
  page :: string
  pages :: "Page dict"
  preview :: bool
  production :: bool
  query :: "string dict option"
  settings :: "json dict"
  route :: Route
  loadedPages :: "string set"
  blocksTree :: "json option"
  blocks :: "json option"
  contentMap :: "json option"

subsection \<open>Collaborators and results of the fetches\<close>

text \<open>The options object \<open>setQuery\<close> hands to \<open>pageNavigate\<close>.\<close>

record NavigateOptions =
  opt_fetchPage :: bool
  opt_page :: string
  opt_params :: json
  opt_query :: string
  opt_replace :: bool
  opt_scrollOptions :: RenderScrollOptions
  opt_rootPath :: "string option"

text \<open>
  \<open>queryStringToMap\<close>, \<open>mapToQueryString\<close> and \<open>traverseComponent\<close> come from
  \<open>../utils\<close>, \<open>isEnabled('RENDER_NAVIGATION')\<close> from \<open>../utils/flags\<close>,
  \<open>JSON.stringify\<close> (on route parameters and on a query) and
  \<open>window.location.pathname\<close> from the browser: they are parameters of the model.
  \<open>pageNavigate\<close> of \<open>../utils/pages\<close> is a call in the trace; the boolean it
  returns is a parameter too. \<open>isSiteEditorIframe\<close> comes from \<open>../utils/dom\<close>.
  \<open>reactBatch\<close> says whether the call runs inside a batch of updates of React (a
  handler of one of its events): there a \<open>setState\<close> is applied, and its callback
  run, once the handler has returned; outside a batch it is applied on the spot.
\<close>

record Env =
  queryStringToMap :: "string \<Rightarrow> string dict"
  mapToQueryString :: "string dict \<Rightarrow> string"
  traverseComponent :: "(string \<times> json) list \<Rightarrow> string \<Rightarrow> json"
  stringifyParams :: "json \<Rightarrow> string"
  stringifyQuery :: "string dict \<Rightarrow> string"
  pageNavigateResult :: "NavigateOptions \<Rightarrow> bool"
  renderNavigation :: bool
  windowPathname :: string
  isSiteEditorIframe :: bool
  reactBatch :: bool

record ParsedServerPageResponse =
  sp_appsEtag :: string
  sp_components :: "json dict"
  sp_extensions :: "json dict"
  sp_matchingPage :: MatchingServerPage
  sp_messages :: "string dict"
  sp_pages :: "Page dict"
  sp_settings :: "json dict"
  sp_queryData :: "json option"

record ParsedPageQueryResponse =
  pq_appsEtag :: string
  pq_cacheHints :: "json dict dict"
  pq_components :: "json dict"
  pq_extensions :: "json dict"
  pq_matchingPage :: RoutePatch
  pq_messages :: "string dict"
  pq_pages :: "Page dict"
  pq_settings :: "json dict"

text \<open>
  The arguments of \<open>fetchNavigationPage\<close>; \<open>req_options\<close> is the object
  \<open>updateRuntime\<close> spreads over them last.
\<close>

record NavigationPageRequest =
  req_declarer :: "string option"
  req_locale :: string
  req_paramsJSON :: string
  req_path :: "string option"
  req_production :: bool
  req_query :: string
  req_renderMajor :: int
  req_routeId :: string
  req_skipCache :: bool
  req_options :: "json option"

text \<open>
  The runtime descriptor, with the properties the class reads, and the props: the
  history is its current \<open>location\<close>, when there is one.
\<close>

record RenderRuntime =
  rt_account :: string
  rt_amp :: bool
  rt_appsEtag :: string
  rt_blocks :: "json option"
  rt_blocksTree :: "json option"
  rt_cacheHints :: "json dict dict"
  rt_contentMap :: "json option"
  rt_culture :: Culture
  rt_hints :: json
  rt_messages :: "string dict"
  rt_components :: "json dict"
  rt_extensions :: "json dict"
  rt_pages :: "Page dict"
  rt_page :: string
  rt_platform :: string
  rt_publicEndpoint :: "string option"
  rt_query :: "string dict option"
  rt_production :: bool
  rt_rootPath :: "string option"
  rt_route :: Route
  rt_settings :: "json dict option"
  rt_queryData :: "json option"
  rt_renderMajor :: int
  rt_workspace :: string

record Props =
  history :: "RenderHistoryLocation option"
  runtime :: RenderRuntime

text \<open>
  The context of \<open>getChildContext\<close> (lines 329-398), its data: the bound methods and
  the emitter are the same objects at every call.
\<close>

record RenderContext =
  ctx_account :: string
  ctx_amp :: bool
  ctx_components :: "json dict"
  ctx_contentMap :: "json option"
  ctx_culture :: Culture
  ctx_defaultExtensions :: "json dict"
  ctx_device :: string
  ctx_extensions :: "json dict"
  ctx_hints :: json
  ctx_history :: "RenderHistoryLocation option"
  ctx_messages :: "string dict"
  ctx_page :: string
  ctx_pages :: "Page dict"
  ctx_platform :: string
  ctx_preview :: bool
  ctx_production :: bool
  ctx_publicEndpoint :: "string option"
  ctx_query :: "string dict option"
  ctx_renderMajor :: int
  ctx_rootPath :: "string option"
  ctx_route :: Route
  ctx_workspace :: string


subsection \<open>The trace of a transition\<close>

text \<open>
  A transition returns the new state and the calls it made, in order. \<open>SetState s\<close>
  is a completed \<open>this.setState\<close>, with the state it produced. \<open>ProvideRuntime\<close> is
  the call of \<open>window.top.__provideRuntime\<close> with the context, the messages and
  the flag; its last argument, the method \<open>updateMessages\<close>, is always the same.
\<close>

datatype event =
    SetState RenderProviderState
  | ReplaceRouteClass string
  | PageScrollTo ScrollToOptions
  | SendInfoFromIframe "bool option"
  | FetchServerPage string "string dict option"
  | FetchNavigationPage NavigationPageRequest
  | HydrateApolloCache json
  | PageNavigate NavigateOptions
  | ConsoleWarn string
  | HistoryReplace RenderHistoryLocation
  | HistoryListen
  | EmitterAddListener string
  | SetTimeoutExecPrefetchPages nat
  | FetchDefaultPages string int "string list"
  | PrefetchAssets json
  | ProvideRuntime RenderContext "string dict" bool

text \<open>The two calls of the Data Fetcher for a page.\<close>

fun isDataFetch :: "event \<Rightarrow> bool" where
  "isDataFetch (FetchServerPage _ _) = True"
| "isDataFetch (FetchNavigationPage _) = True"
| "isDataFetch _ = False"

definition invokesDataFetcher :: "event list \<Rightarrow> bool" where
  "invokesDataFetcher es = (filter isDataFetch es \<noteq> [])"

section \<open>Navigation\<close>

text \<open>\<open>scrollTo\<close> (lines 509-520).\<close>

definition scrollTo :: "RenderScrollOptions option \<Rightarrow> event list" where
  "scrollTo so =
     (case so of
        Some ScrollFalse \<Rightarrow> []
      | Some (ScrollOptions opts) \<Rightarrow> [PageScrollTo opts]
      | None \<Rightarrow> [PageScrollTo \<lparr> top = Some 0, left = Some 0 \<rparr>])"

text \<open>\<open>afterPageChanged\<close> (lines 522-529).\<close>

definition afterPageChanged :: "string \<Rightarrow> RenderScrollOptions option \<Rightarrow> event list" where
  "afterPageChanged r so = [ReplaceRouteClass r] @ scrollTo so @ [SendInfoFromIframe None]"

text \<open>What the callbacks of a pending fetch have captured.\<close>

record PendingNavigation =
  pn_page :: string
  pn_query :: "string dict"
  pn_transientRoute :: Route

text \<open>
  \<open>shouldSkipFetchNavigationData\<close> (lines 555-559): both tests read the id of the
  navigation route as it came, not the page it falls back to.
\<close>

definition hasAllowConditions :: "Page dict \<Rightarrow> string \<Rightarrow> bool" where
  "hasAllowConditions pagesState p =
     (case pagesState p of None \<Rightarrow> False | Some pg \<Rightarrow> allowConditions pg)"

definition shouldSkipFetchNavigationData :: "RenderProviderState \<Rightarrow> LocationState \<Rightarrow> bool" where
  "shouldSkipFetchNavigationData st s =
     (let maybePage = nav_id (navigationRoute s);
          allowConds = hasAllowConditions (pages st) maybePage
      in (\<not> allowConds \<and> maybePage \<in> loadedPages st) \<or> fetchPage s = Some False)"

text \<open>\<open>const page = maybePage || route.id\<close> (line 561).\<close>

definition targetPage :: "RenderProviderState \<Rightarrow> LocationState \<Rightarrow> string" where
  "targetPage st s =
     (if nav_id (navigationRoute s) \<noteq> [] then nav_id (navigationRoute s)
      else route_id (route st))"

text \<open>
  The condition of the specification, in its words: the same two tests, on the page
  the navigation resolves to (\<open>event.navigationRoute.id || currentRoute.id\<close>).
\<close>

definition specShouldSkipFetch :: "RenderProviderState \<Rightarrow> LocationState \<Rightarrow> bool" where
  "specShouldSkipFetch st s =
     ((\<not> hasAllowConditions (pages st) (targetPage st s) \<and> targetPage st s \<in> loadedPages st)
      \<or> fetchPage s = Some False)"

text \<open>
  \<open>onPageChanged\<close> (lines 531-677), up to the call of the fetch. The result is the
  state, the trace, and what the \<open>then\<close> callback has captured when a fetch was started.
  In the fetch branch the source calls \<open>setState\<close> with the preview (lines 578-583)
  and then the fetch (line 593) in one run: outside a batch of React the update and
  its scroll callback come before the call of the fetch, inside a batch they come
  when the run is over, after it. The state returned is the state once they came.
\<close>

definition onPageChanged ::
  "Env \<Rightarrow> Props \<Rightarrow> RenderProviderState \<Rightarrow> RenderHistoryLocation \<Rightarrow>
     RenderProviderState \<times> event list \<times> PendingNavigation option" where
  "onPageChanged env props st location =
     (case locationState location of
        None \<Rightarrow> (st, [], None)
      | Some s \<Rightarrow>
          if \<not> markerTruthy s then (st, [], None)
          else
            let navRoute = navigationRoute s;
                maybePage = nav_id navRoute;
                transientRoute = spreadNavigationRoute (route st) navRoute;
                decl = (case pages st maybePage of None \<Rightarrow> None | Some p \<Rightarrow> declarer p);
                queryMap = queryStringToMap env (search location);
                pageId = targetPage st s
            in
              if shouldSkipFetchNavigationData st s then
                (let st' = st\<lparr>page := pageId, query := Some queryMap, route := transientRoute\<rparr>
                 in (st', SetState st' # afterPageChanged pageId (scrollOptions s), None))
              else
                (let st' = st\<lparr>preview := (route_domain (route st) \<noteq> Some ''admin'')\<rparr>;
                     fetch =
                       (if renderNavigation env
                        then FetchServerPage (nav_path navRoute) (Some queryMap)
                        else FetchNavigationPage
                          \<lparr> req_declarer = decl,
                            req_locale = cultureLocale (culture st),
                            req_paramsJSON = stringifyParams env (nav_params navRoute),
                            req_path = None,
                            req_production = production st,
                            req_query = stringifyQuery env queryMap,
                            req_renderMajor = rt_renderMajor (runtime props),
                            req_routeId = pageId,
                            req_skipCache = False,
                            req_options = None \<rparr>)
                 in (st',
                     (if reactBatch env
                      then fetch # SetState st' # scrollTo (scrollOptions s)
                      else SetState st' # scrollTo (scrollOptions s) @ [fetch]),
                     Some \<lparr> pn_page = pageId, pn_query = queryMap,
                            pn_transientRoute = transientRoute \<rparr>)))"

text \<open>
  The callback of \<open>fetchServerPage\<close> (lines 599-631), run on the state of the moment
  the fetch resolves. \<open>loadedPages\<close> is one \<open>Set\<close> object for the whole session: the
  constructor creates it, \<open>add\<close> returns the same object, and nothing else assigns the
  field; so the set the callback captured is the set of the current state.
\<close>

definition onServerPageFetched ::
  "PendingNavigation \<Rightarrow> ParsedServerPageResponse \<Rightarrow> RenderProviderState \<Rightarrow>
     RenderProviderState \<times> event list" where
  "onServerPageFetched pn r st =
     (let matchingPage = sp_matchingPage r;
          hydrate = (case sp_queryData r of None \<Rightarrow> [] | Some qd \<Rightarrow> [HydrateApolloCache qd]);
          st' = st\<lparr> appsEtag := sp_appsEtag r,
                    components := components st ++ sp_components r,
                    extensions := extensions st ++ sp_extensions r,
                    loadedPages := insert (routeId matchingPage) (loadedPages st),
                    messages := messages st ++ sp_messages r,
                    page := routeId matchingPage,
                    pages := sp_pages r,
                    preview := False,
                    query := Some (pn_query pn),
                    route := asRoute matchingPage,
                    settings := sp_settings r \<rparr>
      in (st', hydrate @
            [SetState st', ReplaceRouteClass (routeId matchingPage), SendInfoFromIframe None]))"

text \<open>\<open>merge\<close> and \<open>mergeWith\<close> of ramda, on dictionaries.\<close>

definition mergeWith :: "('v \<Rightarrow> 'v \<Rightarrow> 'v) \<Rightarrow> 'v dict \<Rightarrow> 'v dict \<Rightarrow> 'v dict" where
  "mergeWith f l r =
     (\<lambda>k. case l k of
            None \<Rightarrow> r k
          | Some a \<Rightarrow> (case r k of None \<Rightarrow> Some a | Some b \<Rightarrow> Some (f a b)))"

text \<open>The callback of \<open>fetchNavigationPage\<close> (lines 644-675).\<close>

definition onNavigationPageFetched ::
  "PendingNavigation \<Rightarrow> ParsedPageQueryResponse \<Rightarrow> RenderProviderState \<Rightarrow>
     RenderProviderState \<times> event list" where
  "onNavigationPageFetched pn r st =
     (let updatedRoute = spreadRoutePatch (pn_transientRoute pn) (pq_matchingPage r);
          st' = st\<lparr> appsEtag := pq_appsEtag r,
                    cacheHints := mergeWith (++) (cacheHints st) (pq_cacheHints r),
                    components := components st ++ pq_components r,
                    extensions := extensions st ++ pq_extensions r,
                    loadedPages := insert (pn_page pn) (loadedPages st),
                    messages := messages st ++ pq_messages r,
                    page := pn_page pn,
                    pages := pq_pages r,
                    preview := False,
                    query := Some (pn_query pn),
                    route := updatedRoute,
                    settings := pq_settings r \<rparr>
      in (st', [SetState st', ReplaceRouteClass (pn_page pn), SendInfoFromIframe None]))"

section \<open>Construction\<close>



definition initialState :: "RenderRuntime \<Rightarrow> RenderProviderState" where
  "initialState rt =
     \<lparr> appsEtag = rt_appsEtag rt,
       cacheHints = rt_cacheHints rt,
       components = rt_components rt,
       culture = rt_culture rt,
       defaultExtensions = Map.empty,
       device = ''any'',
       extensions = rt_extensions rt,
       messages = rt_messages rt,
       page = rt_page rt,
       pages = rt_pages rt,
       preview = False,
       production = rt_production rt,
       query = rt_query rt,
       settings = (case rt_settings rt of None \<Rightarrow> Map.empty | Some v \<Rightarrow> v),
       route = rt_route rt,
       loadedPages = {rt_page rt},
       blocksTree = rt_blocksTree rt,
       blocks = rt_blocks rt,
       contentMap = rt_contentMap rt \<rparr>"

text \<open>The fields of the instance beside its state: \<open>rendered\<close> and \<open>prefetchRoutes\<close>,
  a \<open>Set\<close> in the order of insertion.\<close>

record Instance =
  rendered :: bool
  prefetchRoutes :: "string list"


section \<open>The other transitions\<close>

text \<open>The second argument of \<open>setQuery\<close>, each property with its default.\<close>

record SetQueryOptions =
  sq_merge :: "bool option"
  sq_replace :: "bool option"
  sq_scrollOptions :: "RenderScrollOptions option"

text \<open>\<open>setQuery\<close> (lines 444-478): its result, the state and the calls.\<close>

definition setQuery ::
  "Env \<Rightarrow> Props \<Rightarrow> RenderProviderState \<Rightarrow> string dict option \<Rightarrow> SetQueryOptions \<Rightarrow>
     bool \<times> RenderProviderState \<times> event list" where
  "setQuery env props st queryArg opts =
     (let q = (case queryArg of None \<Rightarrow> Map.empty | Some v \<Rightarrow> v);
          mergeFlag = (case sq_merge opts of None \<Rightarrow> True | Some b \<Rightarrow> b);
          replaceFlag = (case sq_replace opts of None \<Rightarrow> False | Some b \<Rightarrow> b);
          scroll = (case sq_scrollOptions opts of None \<Rightarrow> ScrollFalse | Some v \<Rightarrow> v)
      in case history props of
           None \<Rightarrow> (False, st, [])
         | Some loc \<Rightarrow>
             let current = queryStringToMap env (search loc);
                 nextQuery = mapToQueryString env (if mergeFlag then current ++ q else q);
                 options = \<lparr> opt_fetchPage = False,
                             opt_page = page st,
                             opt_params = route_params (route st),
                             opt_query = nextQuery,
                             opt_replace = replaceFlag,
                             opt_scrollOptions = scroll,
                             opt_rootPath = rt_rootPath (runtime props) \<rparr>
             in (pageNavigateResult env options, st, [PageNavigate options]))"

text \<open>
  \<open>updateRuntime\<close> (lines 772-839) up to the \<open>await\<close> of the fetch: the call, and the
  page and route the rest of the function has captured.
\<close>

record PendingRuntime =
  pr_page :: string
  pr_route :: Route

definition updateRuntime ::
  "Env \<Rightarrow> Props \<Rightarrow> RenderProviderState \<Rightarrow> json option \<Rightarrow> event list \<times> PendingRuntime" where
  "updateRuntime env props st options =
     (let decl = (case pages st (page st) of None \<Rightarrow> None | Some p \<Rightarrow> declarer p);
          params = (if truthy (route_params (route st)) then route_params (route st) else JObj []);
          fetch =
            (if renderNavigation env
             then FetchServerPage (route_path (route st)) (query st)
             else FetchNavigationPage
               \<lparr> req_declarer = decl,
                 req_locale = cultureLocale (culture st),
                 req_paramsJSON = stringifyParams env params,
                 req_path = Some (windowPathname env),
                 req_production = production st,
                 req_query = [],
                 req_renderMajor = rt_renderMajor (runtime props),
                 req_routeId = page st,
                 req_skipCache = True,
                 req_options = options \<rparr>)
      in ([fetch], \<lparr> pr_page = page st, pr_route = route st \<rparr>))"

text \<open>What \<open>updateRuntime\<close> destructures from the result of either fetch.\<close>

record RuntimeFetchResult =
  rf_appsEtag :: string
  rf_cacheHints :: "json dict dict"
  rf_components :: "json dict"
  rf_extensions :: "json dict"
  rf_messages :: "string dict"
  rf_pages :: "Page dict"
  rf_settings :: "json dict"

text \<open>The rest of \<open>updateRuntime\<close> (lines 816-838), on the state of that moment.\<close>

definition updateRuntimeFetched ::
  "Env \<Rightarrow> PendingRuntime \<Rightarrow> RuntimeFetchResult \<Rightarrow> RenderProviderState \<Rightarrow>
     RenderProviderState \<times> event list" where
  "updateRuntimeFetched env pr r st =
     (let st' = st\<lparr> appsEtag := rf_appsEtag r,
                    cacheHints := (if renderNavigation env then cacheHints st else rf_cacheHints r),
                    components := rf_components r,
                    extensions := extensions st ++ rf_extensions r,
                    messages := rf_messages r,
                    page := pr_page pr,
                    pages := rf_pages r,
                    route := pr_route pr,
                    settings := rf_settings r \<rparr>
      in (st', [SetState st', SendInfoFromIframe None]))"

text \<open>\<open>updateExtension\<close> (lines 872-890).\<close>

definition updateExtension ::
  "string \<Rightarrow> json \<Rightarrow> RenderProviderState \<Rightarrow> RenderProviderState \<times> event list" where
  "updateExtension name extension st =
     (let st' = st\<lparr> extensions := (extensions st)(name \<mapsto> extension) \<rparr>
      in (st', SetState st' #
            (if name \<noteq> ''store/__overlay'' then [SendInfoFromIframe None] else [])))"

text \<open>\<open>handleSetDevice\<close> (lines 892-894), the \<open>setDevice\<close> of the context.\<close>

definition handleSetDevice ::
  "string \<Rightarrow> RenderProviderState \<Rightarrow> RenderProviderState \<times> event list" where
  "handleSetDevice d st = (let st' = st\<lparr> device := d \<rparr> in (st', [SetState st']))"

text \<open>\<open>addMessages\<close> (lines 896-909).\<close>

definition addMessages ::
  "string dict \<Rightarrow> RenderProviderState \<Rightarrow> RenderProviderState \<times> event list" where
  "addMessages newMessages st =
     (let st' = st\<lparr> messages := messages st ++ newMessages \<rparr>
      in (st', [SetState st', SendInfoFromIframe None]))"

text \<open>\<open>updateComponentAssets\<close> (lines 710-717).\<close>

definition updateComponentAssets ::
  "json dict \<Rightarrow> RenderProviderState \<Rightarrow> RenderProviderState \<times> event list" where
  "updateComponentAssets availableComponents st =
     (let st' = st\<lparr> components := components st ++ availableComponents \<rparr>
      in (st', [SetState st']))"

text \<open>\<open>componentWillReceiveProps\<close> (lines 304-313).\<close>

definition componentWillReceiveProps ::
  "Instance \<Rightarrow> Props \<Rightarrow> RenderProviderState \<Rightarrow> RenderProviderState \<times> event list" where
  "componentWillReceiveProps inst nextProps st =
     (if rendered inst
      then (let st' = st\<lparr> extensions := rt_extensions (runtime nextProps) \<rparr>
            in (st', [SetState st']))
      else (st, []))"

text \<open>\<open>updateMessages\<close> (lines 988-998).\<close>

definition updateMessages ::
  "string dict \<Rightarrow> RenderProviderState \<Rightarrow> RenderProviderState \<times> event list" where
  "updateMessages newMessages st =
     (let st' = st\<lparr> messages := messages st ++ newMessages \<rparr>
      in (st', [SetState st', SendInfoFromIframe None]))"

section \<open>Prefetch of the default pages\<close>

text \<open>\<open>Set.prototype.add\<close> on a set kept in the order of insertion.\<close>

definition setAdd :: "string \<Rightarrow> string list \<Rightarrow> string list" where
  "setAdd x xs = (if x \<in> set xs then xs else xs @ [x])"

text \<open>
  \<open>disablePrefetch\<close> (lines 695-698): the query of the runtime has the key
  \<open>__disablePrefetchPages\<close> with a value other than \<open>'false'\<close>.
\<close>

definition disablePrefetch :: "Props \<Rightarrow> bool" where
  "disablePrefetch props =
     (case rt_query (runtime props) of
        None \<Rightarrow> False
      | Some q \<Rightarrow>
          (case q ''__disablePrefetchPages'' of
             None \<Rightarrow> False
           | Some v \<Rightarrow> v \<noteq> ''false''))"

text \<open>\<open>prefetchDefaultPages\<close> (lines 690-708).\<close>

definition prefetchDefaultPages ::
  "Props \<Rightarrow> Instance \<Rightarrow> string list \<Rightarrow> Instance \<times> event list" where
  "prefetchDefaultPages props inst routeIds =
     (if \<not> disablePrefetch props then
        (if rendered inst then
           (inst, [ConsoleWarn
              ''prefetchDefaultPages should only be called before RenderProvider's render.''])
         else
           (inst\<lparr> prefetchRoutes := foldl (\<lambda>acc r. setAdd r acc) (prefetchRoutes inst) routeIds \<rparr>,
            []))
      else (inst, []))"

text \<open>\<open>prefetchPages\<close> (lines 1000-1004): the timer, with its delay in milliseconds.\<close>

definition prefetchPages :: "Instance \<Rightarrow> event list" where
  "prefetchPages inst =
     (if length (prefetchRoutes inst) > 0 then [SetTimeoutExecPrefetchPages (20 * 1000)] else [])"

text \<open>The timer of \<open>prefetchPages\<close>, among the calls of a trace.\<close>

fun isPrefetchTimer :: "event \<Rightarrow> bool" where
  "isPrefetchTimer (SetTimeoutExecPrefetchPages _) = True"
| "isPrefetchTimer _ = False"

text \<open>\<open>componentDidMount\<close> (lines 287-302).\<close>

definition componentDidMount :: "Props \<Rightarrow> Instance \<Rightarrow> Instance \<times> event list" where
  "componentDidMount props inst =
     (let inst' = inst\<lparr> rendered := True \<rparr>
      in (inst',
          (case history props of None \<Rightarrow> [] | Some _ \<Rightarrow> [HistoryListen]) @
          [EmitterAddListener ''localesChanged''] @
          (if \<not> rt_production (runtime props)
           then [EmitterAddListener ''extensionsUpdated'', EmitterAddListener ''blocksUpdated'']
           else []) @
          [SendInfoFromIframe None] @
          prefetchPages inst'))"

text \<open>
  \<open>execPrefetchPages\<close> (lines 1006-1034): the batched call, and after it resolved with
  the components (an object, as the list of its entries) one call per component.
\<close>

definition execPrefetchPages :: "Props \<Rightarrow> RenderProviderState \<Rightarrow> Instance \<Rightarrow> event list" where
  "execPrefetchPages props st inst =
     [FetchDefaultPages (cultureLocale (culture st)) (rt_renderMajor (runtime props))
        (prefetchRoutes inst)]"

definition execPrefetchPagesFetched :: "Env \<Rightarrow> (string \<times> json) list \<Rightarrow> event list" where
  "execPrefetchPagesFetched env defaultComponents =
     map (\<lambda>component. PrefetchAssets (traverseComponent env defaultComponents component))
       (map fst defaultComponents)"

section \<open>The state machine\<close>

text \<open>
  The operations that change the state, each with its arguments; the two fetches of a
  navigation and the fetch of \<open>updateRuntime\<close> appear when they resolve.
\<close>

datatype operation =
    OnPageChanged RenderHistoryLocation
  | ServerPageFetched PendingNavigation ParsedServerPageResponse
  | NavigationPageFetched PendingNavigation ParsedPageQueryResponse
  | SetQuery "string dict option" SetQueryOptions
  | UpdateRuntimeFetched PendingRuntime RuntimeFetchResult
  | UpdateExtension string json
  | AddMessages "string dict"
  | UpdateComponentAssets "json dict"
  | SetDevice string
  | ReceiveProps Instance Props
  | UpdateMessages "string dict"

fun transition :: "Env \<Rightarrow> Props \<Rightarrow> operation \<Rightarrow> RenderProviderState \<Rightarrow> RenderProviderState" where
  "transition env props (OnPageChanged location) st = fst (onPageChanged env props st location)"
| "transition env props (ServerPageFetched pn r) st = fst (onServerPageFetched pn r st)"
| "transition env props (NavigationPageFetched pn r) st = fst (onNavigationPageFetched pn r st)"
| "transition env props (SetQuery q opts) st = fst (snd (setQuery env props st q opts))"
| "transition env props (UpdateRuntimeFetched pr r) st = fst (updateRuntimeFetched env pr r st)"
| "transition env props (UpdateExtension name extension) st = fst (updateExtension name extension st)"
| "transition env props (AddMessages m) st = fst (addMessages m st)"
| "transition env props (UpdateComponentAssets c) st = fst (updateComponentAssets c st)"
| "transition env props (SetDevice d) st = fst (handleSetDevice d st)"
| "transition env props (ReceiveProps inst nextProps) st =
     fst (componentWillReceiveProps inst nextProps st)"
| "transition env props (UpdateMessages m) st = fst (updateMessages m st)"

fun run :: "Env \<Rightarrow> Props \<Rightarrow> operation list \<Rightarrow> RenderProviderState \<Rightarrow> RenderProviderState" where
  "run env props [] st = st"
| "run env props (op # ops) st = run env props ops (transition env props op st)"

section \<open>Publishing to the hosting frame\<close>






section \<open>A session to evaluate\<close>

text \<open>
  A store whose boot page is \<open>store.home\<close>, with a history, and the events and fetch
  results the examples below run on.
\<close>

definition homeRoute :: Route where
  "homeRoute = \<lparr> route_id = ''store.home'', route_path = ''/'', route_params = JObj [],
                 route_domain = Some ''store'', canonicalPath = None \<rparr>"

definition storeRuntime :: RenderRuntime where
  "storeRuntime =
     \<lparr> rt_account = ''storecomponents'',
       rt_amp = False,
       rt_appsEtag = ''etag1'',
       rt_blocks = None,
       rt_blocksTree = None,
       rt_cacheHints = Map.empty,
       rt_contentMap = None,
       rt_culture = \<lparr> cultureLocale = ''en-US'' \<rparr>,
       rt_hints = JObj [],
       rt_messages = [''hello'' \<mapsto> ''Hello''],
       rt_components = [''vtex.store@2.x/Home'' \<mapsto> JObj []],
       rt_extensions = [''store.home'' \<mapsto> JObj []],
       rt_pages = Map.empty,
       rt_page = ''store.home'',
       rt_platform = ''vtex'',
       rt_publicEndpoint = None,
       rt_query = None,
       rt_production = True,
       rt_rootPath = None,
       rt_route = homeRoute,
       rt_settings = None,
       rt_queryData = None,
       rt_renderMajor = 8,
       rt_workspace = ''master'' \<rparr>"

definition storeLocation :: RenderHistoryLocation where
  "storeLocation = \<lparr> pathname = ''/'', search = ''?color=blue'', locationState = None \<rparr>"

definition storeProps :: Props where
  "storeProps = \<lparr> history = Some storeLocation, runtime = storeRuntime \<rparr>"

definition storeState :: RenderProviderState where
  "storeState = initialState storeRuntime"

text \<open>The collaborators: a query string is read as one fixed map; the legacy fetch.\<close>

definition legacyEnv :: Env where
  "legacyEnv =
     \<lparr> queryStringToMap = (\<lambda>s. if s = ''?color=blue'' then [''color'' \<mapsto> ''blue''] else Map.empty),
       mapToQueryString = (\<lambda>m. if m ''q'' = Some ''red'' then ''color=blue&q=red'' else []),
       traverseComponent = (\<lambda>cs c. JStr c),
       stringifyParams = (\<lambda>j. ''{}''),
       stringifyQuery = (\<lambda>m. ''{}''),
       pageNavigateResult = (\<lambda>opts. True),
       renderNavigation = False,
       windowPathname = ''/'',
       isSiteEditorIframe = True,
       reactBatch = False \<rparr>"


definition navigationTo :: "string \<Rightarrow> string \<Rightarrow> LocationState" where
  "navigationTo i p =
     \<lparr> navigationRoute = \<lparr> nav_id = i, nav_params = JObj [], nav_path = p \<rparr>,
       fetchPage = None, scrollOptions = None, renderRouting = Some (JBool True) \<rparr>"

definition locationOf :: "LocationState \<Rightarrow> RenderHistoryLocation" where
  "locationOf s = \<lparr> pathname = nav_path (navigationRoute s), search = [], locationState = Some s \<rparr>"

text \<open>A change of location that is not the framework's: a state without the marker.\<close>

definition foreignLocation :: RenderHistoryLocation where
  "foreignLocation =
     locationOf ((navigationTo ''store.product'' ''/p/123'')\<lparr> renderRouting := None \<rparr>)"


definition productPageQuery :: ParsedPageQueryResponse where
  "productPageQuery =
     \<lparr> pq_appsEtag = ''etag2'',
       pq_cacheHints = Map.empty,
       pq_components = [''vtex.store@2.x/Product'' \<mapsto> JObj []],
       pq_extensions = [''store.product'' \<mapsto> JObj []],
       pq_matchingPage = \<lparr> patch_id = None, patch_path = None, patch_params = None,
                           patch_domain = None, patch_canonicalPath = None \<rparr>,
       pq_messages = [''buy'' \<mapsto> ''Buy''],
       pq_pages = Map.empty,
       pq_settings = Map.empty \<rparr>"

text \<open>A refresh of the runtime whose result has no message and no component.\<close>

definition emptyRefresh :: RuntimeFetchResult where
  "emptyRefresh =
     \<lparr> rf_appsEtag = ''etag3'',
       rf_cacheHints = Map.empty,
       rf_components = Map.empty,
       rf_extensions = Map.empty,
       rf_messages = Map.empty,
       rf_pages = Map.empty,
       rf_settings = Map.empty \<rparr>"

text \<open>What the callback of the navigation to \<open>store.product\<close> has captured.\<close>

definition productPending :: PendingNavigation where
  "productPending =
     \<lparr> pn_page = ''store.product'', pn_query = Map.empty,
       pn_transientRoute = homeRoute\<lparr> route_id := ''store.product'', route_path := ''/p/123'' \<rparr> \<rparr>"

text \<open>The same props with \<open>?__disablePrefetchPages=true\<close> in the query of the runtime.\<close>

definition disabledProps :: Props where
  "disabledProps =
     storeProps\<lparr> runtime := storeRuntime\<lparr> rt_query := Some [''__disablePrefetchPages'' \<mapsto> ''true''] \<rparr> \<rparr>"

text \<open>A state pushed by another script, with the marker \<open>1\<close>.\<close>

definition otherScriptState :: LocationState where
  "otherScriptState =
     (navigationTo ''store.product'' ''/p/123'')\<lparr> renderRouting := Some (JNum 1) \<rparr>"


section \<open>Properties\<close>

subsection \<open>Shared lemmas\<close>

lemma not_fetch_scrollTo: "filter isDataFetch (scrollTo so) = []"
  by (simp add: scrollTo_def split: option.splits RenderScrollOptions.splits)

lemma not_fetch_afterPageChanged: "filter isDataFetch (afterPageChanged r so) = []"
  by (simp add: afterPageChanged_def not_fetch_scrollTo)

text \<open>A navigation of the framework calls the Data Fetcher exactly when the source's
  condition is false.\<close>

lemma onPageChanged_fetch_iff:
  assumes "locationState location = Some s" and "markerTruthy s"
  shows "invokesDataFetcher (fst (snd (onPageChanged env props st location))) =
           (\<not> shouldSkipFetchNavigationData st s)"
  using assms
  by (simp add: onPageChanged_def invokesDataFetcher_def Let_def not_fetch_scrollTo
        not_fetch_afterPageChanged)

lemma spread_lookup: "(old ++ new) k = (case new k of None \<Rightarrow> old k | Some v \<Rightarrow> Some v)"
  by (simp add: map_add_def)

lemma set_setAdd: "set (setAdd x xs) = insert x (set xs)"
  by (auto simp: setAdd_def)

lemma distinct_setAdd: "distinct xs \<Longrightarrow> distinct (setAdd x xs)"
  by (simp add: setAdd_def)

lemma set_foldl_setAdd: "set (foldl (\<lambda>acc r. setAdd r acc) xs rs) = set xs \<union> set rs"
  by (induction rs arbitrary: xs) (auto simp: set_setAdd)

lemma distinct_foldl_setAdd:
  "distinct xs \<Longrightarrow> distinct (foldl (\<lambda>acc r. setAdd r acc) xs rs)"
  by (induction rs arbitrary: xs) (simp_all add: distinct_setAdd)

lemma transition_loadedPages: "loadedPages st \<subseteq> loadedPages (transition env props op st)"
proof (cases op)
  case (OnPageChanged location)
  then show ?thesis
    by (auto simp: onPageChanged_def Let_def split: option.splits)
next
  case (ServerPageFetched pn r)
  then show ?thesis by (auto simp: onServerPageFetched_def Let_def)
next
  case (NavigationPageFetched pn r)
  then show ?thesis by (auto simp: onNavigationPageFetched_def Let_def)
next
  case (SetQuery q opts)
  then show ?thesis by (simp add: setQuery_def Let_def split: option.splits)
next
  case (UpdateRuntimeFetched pr r)
  then show ?thesis by (simp add: updateRuntimeFetched_def Let_def)
next
  case (UpdateExtension name extension)
  then show ?thesis by (simp add: updateExtension_def Let_def)
next
  case (AddMessages m)
  then show ?thesis by (simp add: addMessages_def Let_def)
next
  case (UpdateComponentAssets c)
  then show ?thesis by (simp add: updateComponentAssets_def Let_def)
next
  case (SetDevice d)
  then show ?thesis by (simp add: handleSetDevice_def Let_def)
next
  case (ReceiveProps inst nextProps)
  then show ?thesis by (simp add: componentWillReceiveProps_def Let_def)
next
  case (UpdateMessages m)
  then show ?thesis by (simp add: updateMessages_def Let_def)
qed

subsection \<open>C1: when a navigation skips the Data Fetcher\<close>

text \<open>
  C1, as the code has it. For a navigation event with the marker, \<open>onPageChanged\<close>
  does not call the Data Fetcher if and only if the id the event carries
  (\<open>navigationRoute.id\<close>, without the fallback to the current route) has no allow
  conditions in the pages and is in \<open>loadedPages\<close>, or \<open>fetchPage\<close> is \<open>false\<close>. When
  that id is not empty this is the condition of the specification; and a navigation
  whose id is in \<open>loadedPages\<close> with no allow conditions never calls the Data Fetcher.
\<close>

theorem onPageChanged_skip_iff:
  assumes "locationState location = Some s" and "markerTruthy s"
  shows "((\<not> invokesDataFetcher (fst (snd (onPageChanged env props st location)))) =
            ((\<not> hasAllowConditions (pages st) (nav_id (navigationRoute s)) \<and>
              nav_id (navigationRoute s) \<in> loadedPages st) \<or> fetchPage s = Some False)) \<and>
         (nav_id (navigationRoute s) \<noteq> [] \<longrightarrow>
            (\<not> invokesDataFetcher (fst (snd (onPageChanged env props st location)))) =
              specShouldSkipFetch st s) \<and>
         (nav_id (navigationRoute s) \<in> loadedPages st \<and>
          \<not> hasAllowConditions (pages st) (nav_id (navigationRoute s)) \<longrightarrow>
            \<not> invokesDataFetcher (fst (snd (onPageChanged env props st location))))"
  using assms
  by (simp add: onPageChanged_fetch_iff shouldSkipFetchNavigationData_def
        specShouldSkipFetch_def targetPage_def Let_def)

text \<open>
  C1 as stated fails: an event whose \<open>navigationRoute.id\<close> is empty resolves to the
  current page \<open>store.home\<close>, which is loaded and has no allow conditions, so the
  condition of the specification holds; the code tests the empty id and fetches.
\<close>

theorem onPageChanged_fallback_fetches:
  "markerTruthy (navigationTo [] ''/'') \<and>
   targetPage storeState (navigationTo [] ''/'') = ''store.home'' \<and>
   specShouldSkipFetch storeState (navigationTo [] ''/'') \<and>
   invokesDataFetcher
     (fst (snd (onPageChanged legacyEnv storeProps storeState (locationOf (navigationTo [] ''/'')))))"
  by (simp add: onPageChanged_fetch_iff [of _ "navigationTo [] ''/''"] locationOf_def
        navigationTo_def markerTruthy_def specShouldSkipFetch_def shouldSkipFetchNavigationData_def
        targetPage_def hasAllowConditions_def storeState_def initialState_def storeRuntime_def
        homeRoute_def)

text \<open>C1 at a navigation to the loaded page \<open>store.home\<close>: no fetch.\<close>

theorem onPageChanged_skip_iff_witness:
  "locationState (locationOf (navigationTo ''store.home'' ''/'')) =
     Some (navigationTo ''store.home'' ''/'') \<and>
   markerTruthy (navigationTo ''store.home'' ''/'') \<and>
   \<not> invokesDataFetcher
       (fst (snd (onPageChanged legacyEnv storeProps storeState
          (locationOf (navigationTo ''store.home'' ''/'')))))"
proof -
  let ?s = "navigationTo ''store.home'' ''/''"
  have h1: "locationState (locationOf ?s) = Some ?s" by (simp add: locationOf_def)
  have h2: "markerTruthy ?s" by (simp add: navigationTo_def markerTruthy_def)
  have h3: "nav_id (navigationRoute ?s) \<in> loadedPages storeState \<and>
            \<not> hasAllowConditions (pages storeState) (nav_id (navigationRoute ?s))"
    by (simp add: navigationTo_def markerTruthy_def storeState_def initialState_def storeRuntime_def
          hasAllowConditions_def)
  from onPageChanged_skip_iff [OF h1 h2, of legacyEnv storeProps storeState] h3
  have "\<not> invokesDataFetcher
          (fst (snd (onPageChanged legacyEnv storeProps storeState (locationOf ?s))))"
    by blast
  with h1 h2 show ?thesis by simp
qed

subsection \<open>C2: merging a fetch result\<close>

text \<open>
  C2, as the code has it. After the fetch of a navigation resolves (either fetch), each
  of \<open>components\<close>, \<open>extensions\<close> and \<open>messages\<close> holds, at every key, the value of the
  result when the result has the key and the value it held before otherwise. After
  the fetch of \<open>updateRuntime\<close> resolves this holds of \<open>extensions\<close> only:
  \<open>components\<close> and \<open>messages\<close> are those of the result.
\<close>

theorem fetch_result_merge:
  "components (fst (onServerPageFetched pn sp st)) k =
     (case sp_components sp k of None \<Rightarrow> components st k | Some v \<Rightarrow> Some v) \<and>
   extensions (fst (onServerPageFetched pn sp st)) k =
     (case sp_extensions sp k of None \<Rightarrow> extensions st k | Some v \<Rightarrow> Some v) \<and>
   messages (fst (onServerPageFetched pn sp st)) m =
     (case sp_messages sp m of None \<Rightarrow> messages st m | Some v \<Rightarrow> Some v) \<and>
   components (fst (onNavigationPageFetched pn pq st)) k =
     (case pq_components pq k of None \<Rightarrow> components st k | Some v \<Rightarrow> Some v) \<and>
   extensions (fst (onNavigationPageFetched pn pq st)) k =
     (case pq_extensions pq k of None \<Rightarrow> extensions st k | Some v \<Rightarrow> Some v) \<and>
   messages (fst (onNavigationPageFetched pn pq st)) m =
     (case pq_messages pq m of None \<Rightarrow> messages st m | Some v \<Rightarrow> Some v) \<and>
   extensions (fst (updateRuntimeFetched env pr rf st)) k =
     (case rf_extensions rf k of None \<Rightarrow> extensions st k | Some v \<Rightarrow> Some v) \<and>
   components (fst (updateRuntimeFetched env pr rf st)) = rf_components rf \<and>
   messages (fst (updateRuntimeFetched env pr rf st)) = rf_messages rf"
  by (simp add: onServerPageFetched_def onNavigationPageFetched_def updateRuntimeFetched_def
        Let_def spread_lookup)

text \<open>
  C2 as stated fails for \<open>updateRuntime\<close>: the message \<open>hello\<close> is in the state and
  not in the result of the refresh, and it is gone afterwards.
\<close>

theorem updateRuntime_drops_message:
  "messages storeState ''hello'' = Some ''Hello'' \<and>
   rf_messages emptyRefresh ''hello'' = None \<and>
   messages (fst (updateRuntimeFetched legacyEnv
      \<lparr> pr_page = ''store.home'', pr_route = homeRoute \<rparr> emptyRefresh storeState)) ''hello'' = None"
  by (simp add: updateRuntimeFetched_def Let_def storeState_def initialState_def
        storeRuntime_def emptyRefresh_def)

text \<open>C2 at the navigation to \<open>store.product\<close>: the message \<open>hello\<close> is kept.\<close>

theorem fetch_result_merge_witness:
  "messages (fst (onNavigationPageFetched productPending productPageQuery storeState)) ''hello'' =
     Some ''Hello''"
  using fetch_result_merge [where m = "''hello''" and pq = productPageQuery and st = storeState
      and pn = productPending]
  by (simp add: productPageQuery_def storeState_def initialState_def storeRuntime_def)

subsection \<open>C3: foreign changes of location\<close>

text \<open>
  C3, as the code has it. For a location whose state is absent, or whose state has no
  marker \<open>renderRouting\<close> or a falsy one (\<open>false\<close>, \<open>0\<close>, the empty string, \<open>null\<close>),
  \<open>onPageChanged\<close> returns the state as it was, makes no call at all and starts no
  fetch.
\<close>

theorem onPageChanged_foreign_noop:
  "locationState location = None \<or> (\<exists>s. locationState location = Some s \<and> \<not> markerTruthy s) \<Longrightarrow>
     onPageChanged env props st location = (st, [], None)"
  by (auto simp: onPageChanged_def)

text \<open>
  C3 as stated fails: the guard tests the truthiness of the marker. A state whose
  marker is \<open>1\<close> lacks \<open>renderRouting === true\<close>, and \<open>onPageChanged\<close> takes it for a
  navigation to \<open>store.product\<close>: it sets the preview and fetches the page.
\<close>

theorem onPageChanged_truthy_marker_navigates:
  "locationState (locationOf otherScriptState) = Some otherScriptState \<and>
   \<not> markerIsTrue otherScriptState \<and>
   preview (fst (onPageChanged legacyEnv storeProps storeState (locationOf otherScriptState))) \<and>
   \<not> preview storeState \<and>
   invokesDataFetcher
     (fst (snd (onPageChanged legacyEnv storeProps storeState (locationOf otherScriptState))))"
  by (simp add: onPageChanged_def Let_def invokesDataFetcher_def not_fetch_scrollTo
        markerTruthy_def markerIsTrue_def otherScriptState_def locationOf_def navigationTo_def
        shouldSkipFetchNavigationData_def hasAllowConditions_def legacyEnv_def
        storeState_def initialState_def storeRuntime_def homeRoute_def)

text \<open>C3 at a location whose state has no marker.\<close>

theorem onPageChanged_foreign_noop_witness:
  "(\<exists>s. locationState foreignLocation = Some s \<and> \<not> markerTruthy s) \<and>
   onPageChanged legacyEnv storeProps storeState foreignLocation = (storeState, [], None)"
proof -
  have h: "\<exists>s. locationState foreignLocation = Some s \<and> \<not> markerTruthy s"
    by (simp add: foreignLocation_def locationOf_def navigationTo_def markerTruthy_def)
  then show ?thesis
    using onPageChanged_foreign_noop [of foreignLocation legacyEnv storeProps storeState] by simp
qed

subsection \<open>C4: changing the query\<close>

text \<open>
  C4. For every query and every choice of \<open>merge\<close> and \<open>replace\<close>, \<open>setQuery\<close> makes
  no call of the Data Fetcher and leaves the state as it was. Without a history it
  returns \<open>false\<close> and makes no call. With a history it makes one call, of
  \<open>pageNavigate\<close>, for the current page and parameters, with \<open>fetchPage: false\<close> and
  with the query string of the given query, merged over the query of the current
  location when \<open>merge\<close> is true (its default); and \<open>onPageChanged\<close> makes no call of the
  Data Fetcher on an event of the framework whose \<open>fetchPage\<close> is \<open>false\<close>.
\<close>

theorem setQuery_never_fetches:
  "\<not> invokesDataFetcher (snd (snd (setQuery env props st q opts))) \<and>
   fst (snd (setQuery env props st q opts)) = st \<and>
   (history props = None \<longrightarrow> setQuery env props st q opts = (False, st, [])) \<and>
   (\<forall>loc. history props = Some loc \<longrightarrow>
      (\<exists>options.
         setQuery env props st q opts = (pageNavigateResult env options, st, [PageNavigate options]) \<and>
         opt_fetchPage options = False \<and>
         opt_page options = page st \<and>
         opt_params options = route_params (route st) \<and>
         opt_replace options = (case sq_replace opts of None \<Rightarrow> False | Some b \<Rightarrow> b) \<and>
         opt_query options =
           mapToQueryString env
             (if (case sq_merge opts of None \<Rightarrow> True | Some b \<Rightarrow> b)
              then queryStringToMap env (search loc) ++ (case q of None \<Rightarrow> Map.empty | Some v \<Rightarrow> v)
              else (case q of None \<Rightarrow> Map.empty | Some v \<Rightarrow> v)))) \<and>
   (\<forall>location s st'. locationState location = Some s \<and> markerTruthy s \<and> fetchPage s = Some False \<longrightarrow>
      \<not> invokesDataFetcher (fst (snd (onPageChanged env props st' location))))"
proof -
  have a: "\<not> invokesDataFetcher (snd (snd (setQuery env props st q opts)))"
    by (simp add: setQuery_def invokesDataFetcher_def Let_def split: option.splits)
  have b: "fst (snd (setQuery env props st q opts)) = st"
    by (simp add: setQuery_def Let_def split: option.splits)
  have c: "history props = None \<longrightarrow> setQuery env props st q opts = (False, st, [])"
    by (simp add: setQuery_def Let_def)
  have d: "\<forall>loc. history props = Some loc \<longrightarrow>
      (\<exists>options.
         setQuery env props st q opts = (pageNavigateResult env options, st, [PageNavigate options]) \<and>
         opt_fetchPage options = False \<and>
         opt_page options = page st \<and>
         opt_params options = route_params (route st) \<and>
         opt_replace options = (case sq_replace opts of None \<Rightarrow> False | Some b \<Rightarrow> b) \<and>
         opt_query options =
           mapToQueryString env
             (if (case sq_merge opts of None \<Rightarrow> True | Some b \<Rightarrow> b)
              then queryStringToMap env (search loc) ++ (case q of None \<Rightarrow> Map.empty | Some v \<Rightarrow> v)
              else (case q of None \<Rightarrow> Map.empty | Some v \<Rightarrow> v)))"
    by (simp add: setQuery_def Let_def)
  have e: "\<forall>location s st'. locationState location = Some s \<and> markerTruthy s \<and> fetchPage s = Some False \<longrightarrow>
      \<not> invokesDataFetcher (fst (snd (onPageChanged env props st' location)))"
    by (simp add: onPageChanged_fetch_iff shouldSkipFetchNavigationData_def Let_def)
  from a b c d e show ?thesis by blast
qed

text \<open>
  C4 at \<open>setQuery({q: 'red'}, {merge: true})\<close> on the location \<open>?color=blue\<close>, and at
  the event of a navigation to the unseen page \<open>store.product\<close> with \<open>fetchPage: false\<close>.
\<close>

theorem setQuery_never_fetches_witness:
  "setQuery legacyEnv storeProps storeState (Some [''q'' \<mapsto> ''red''])
      \<lparr> sq_merge = Some True, sq_replace = None, sq_scrollOptions = None \<rparr> =
     (True, storeState,
      [PageNavigate \<lparr> opt_fetchPage = False, opt_page = ''store.home'', opt_params = JObj [],
         opt_query = ''color=blue&q=red'', opt_replace = False, opt_scrollOptions = ScrollFalse,
         opt_rootPath = None \<rparr>]) \<and>
   \<not> invokesDataFetcher (fst (snd (onPageChanged legacyEnv storeProps storeState
       (locationOf ((navigationTo ''store.product'' ''/p/123'')\<lparr> fetchPage := Some False \<rparr>)))))"
proof -
  let ?s = "(navigationTo ''store.product'' ''/p/123'')\<lparr> fetchPage := Some False \<rparr>"
  have ev: "locationState (locationOf ?s) = Some ?s \<and> markerTruthy ?s \<and> fetchPage ?s = Some False"
    by (simp add: locationOf_def navigationTo_def markerTruthy_def)
  have call: "setQuery legacyEnv storeProps storeState (Some [''q'' \<mapsto> ''red''])
      \<lparr> sq_merge = Some True, sq_replace = None, sq_scrollOptions = None \<rparr> =
     (True, storeState,
      [PageNavigate \<lparr> opt_fetchPage = False, opt_page = ''store.home'', opt_params = JObj [],
         opt_query = ''color=blue&q=red'', opt_replace = False, opt_scrollOptions = ScrollFalse,
         opt_rootPath = None \<rparr>])"
    by (simp add: setQuery_def Let_def storeProps_def storeLocation_def legacyEnv_def
          storeState_def initialState_def storeRuntime_def homeRoute_def)
  from setQuery_never_fetches [of legacyEnv storeProps storeState
      "Some [''q'' \<mapsto> ''red'']" "\<lparr> sq_merge = Some True, sq_replace = None, sq_scrollOptions = None \<rparr>"]
  have "\<not> invokesDataFetcher (fst (snd (onPageChanged legacyEnv storeProps storeState (locationOf ?s))))"
    using ev by blast
  with call show ?thesis by simp
qed

subsection \<open>C5: the loaded pages only grow\<close>

text \<open>
  C5. Every operation of the state machine (\<open>onPageChanged\<close> in its skip branch and
  up to its fetch, the callbacks of the two fetches, \<open>setQuery\<close>, the completion of
  \<open>updateRuntime\<close>, \<open>updateExtension\<close>, \<open>addMessages\<close>, \<open>updateComponentAssets\<close>,
  \<open>setDevice\<close>, \<open>componentWillReceiveProps\<close>, \<open>updateMessages\<close>) keeps every page of
  \<open>loadedPages\<close>, and so does every sequence of them.
\<close>

theorem loadedPages_only_grows:
  "loadedPages st \<subseteq> loadedPages (transition env props op st) \<and>
   loadedPages st \<subseteq> loadedPages (run env props ops st)"
proof
  show "loadedPages st \<subseteq> loadedPages (transition env props op st)"
    by (rule transition_loadedPages)
  show "loadedPages st \<subseteq> loadedPages (run env props ops st)"
  proof (induction ops arbitrary: st)
    case Nil
    show ?case by simp
  next
    case (Cons a ops)
    have "loadedPages st \<subseteq> loadedPages (transition env props a st)"
      by (rule transition_loadedPages)
    also have "\<dots> \<subseteq> loadedPages (run env props ops (transition env props a st))"
      by (rule Cons.IH)
    finally show ?case by simp
  qed
qed

text \<open>C5 on a session: a navigation, its fetch, a change of device.\<close>

theorem loadedPages_only_grows_witness:
  "''store.home'' \<in> loadedPages (run legacyEnv storeProps
      [OnPageChanged (locationOf (navigationTo ''store.product'' ''/p/123'')),
       NavigationPageFetched productPending productPageQuery,
       SetDevice ''mobile''] storeState)"
proof -
  have "''store.home'' \<in> loadedPages storeState"
    by (simp add: storeState_def initialState_def storeRuntime_def)
  then show ?thesis
    using loadedPages_only_grows [of storeState legacyEnv storeProps "SetDevice ''mobile''"
      "[OnPageChanged (locationOf (navigationTo ''store.product'' ''/p/123'')),
       NavigationPageFetched productPending productPageQuery,
       SetDevice ''mobile'']"]
    by blast
qed

subsection \<open>C6: preview and the page marked as loaded\<close>




subsection \<open>C7: registering and running the prefetch\<close>

text \<open>
  C7. \<open>prefetchDefaultPages\<close>: when the query of the runtime has the disabling key with
  a value other than \<open>false\<close>, nothing changes and nothing is logged; otherwise, once
  \<open>rendered\<close> is set, a warning is logged and the set is unchanged; otherwise the set
  gains exactly the given route ids, each once. \<open>componentDidMount\<close> sets \<open>rendered\<close>,
  keeps the set, and sets the timer of the prefetch exactly once, with a delay of
  20000 milliseconds, when the set is not empty, and not at all when it is empty.
  \<open>execPrefetchPages\<close> makes one call of \<open>fetchDefaultPages\<close> with all the route ids of
  the set, and then one call of \<open>prefetchAssets\<close> per component of the result.
\<close>

theorem prefetch_registration:
  "(disablePrefetch props \<longrightarrow> prefetchDefaultPages props inst routeIds = (inst, [])) \<and>
   (\<not> disablePrefetch props \<and> rendered inst \<longrightarrow>
      (\<exists>w. prefetchDefaultPages props inst routeIds = (inst, [ConsoleWarn w]))) \<and>
   (\<not> disablePrefetch props \<and> \<not> rendered inst \<longrightarrow>
      snd (prefetchDefaultPages props inst routeIds) = [] \<and>
      rendered (fst (prefetchDefaultPages props inst routeIds)) = rendered inst \<and>
      set (prefetchRoutes (fst (prefetchDefaultPages props inst routeIds))) =
        set (prefetchRoutes inst) \<union> set routeIds \<and>
      (distinct (prefetchRoutes inst) \<longrightarrow>
         distinct (prefetchRoutes (fst (prefetchDefaultPages props inst routeIds))))) \<and>
   rendered (fst (componentDidMount props inst)) \<and>
   prefetchRoutes (fst (componentDidMount props inst)) = prefetchRoutes inst \<and>
   filter isPrefetchTimer (snd (componentDidMount props inst)) =
     (if prefetchRoutes inst \<noteq> [] then [SetTimeoutExecPrefetchPages 20000] else []) \<and>
   execPrefetchPages props st inst =
     [FetchDefaultPages (cultureLocale (culture st)) (rt_renderMajor (runtime props))
        (prefetchRoutes inst)] \<and>
   execPrefetchPagesFetched env defaultComponents =
     map (\<lambda>c. PrefetchAssets (traverseComponent env defaultComponents c))
       (map fst defaultComponents)"
proof -
  have a: "disablePrefetch props \<longrightarrow> prefetchDefaultPages props inst routeIds = (inst, [])"
    by (simp add: prefetchDefaultPages_def)
  have b: "\<not> disablePrefetch props \<and> rendered inst \<longrightarrow>
      (\<exists>w. prefetchDefaultPages props inst routeIds = (inst, [ConsoleWarn w]))"
    by (simp add: prefetchDefaultPages_def)
  have c: "\<not> disablePrefetch props \<and> \<not> rendered inst \<longrightarrow>
      snd (prefetchDefaultPages props inst routeIds) = [] \<and>
      rendered (fst (prefetchDefaultPages props inst routeIds)) = rendered inst \<and>
      set (prefetchRoutes (fst (prefetchDefaultPages props inst routeIds))) =
        set (prefetchRoutes inst) \<union> set routeIds \<and>
      (distinct (prefetchRoutes inst) \<longrightarrow>
         distinct (prefetchRoutes (fst (prefetchDefaultPages props inst routeIds))))"
    by (simp add: prefetchDefaultPages_def set_foldl_setAdd distinct_foldl_setAdd)
  have d: "rendered (fst (componentDidMount props inst)) \<and>
      prefetchRoutes (fst (componentDidMount props inst)) = prefetchRoutes inst"
    by (simp add: componentDidMount_def Let_def)
  have e: "filter isPrefetchTimer (snd (componentDidMount props inst)) =
     (if prefetchRoutes inst \<noteq> [] then [SetTimeoutExecPrefetchPages 20000] else [])"
    by (simp add: componentDidMount_def Let_def prefetchPages_def split: option.splits)
  have f: "execPrefetchPages props st inst =
     [FetchDefaultPages (cultureLocale (culture st)) (rt_renderMajor (runtime props))
        (prefetchRoutes inst)]"
    by (simp add: execPrefetchPages_def)
  have g: "execPrefetchPagesFetched env defaultComponents =
     map (\<lambda>c. PrefetchAssets (traverseComponent env defaultComponents c))
       (map fst defaultComponents)"
    by (simp add: execPrefetchPagesFetched_def)
  from a b c d e f g show ?thesis by blast
qed

text \<open>
  C7 on the store: registering \<open>store.search\<close> twice before the mount queues it once;
  with the disabling key nothing is queued; after the mount a warning is all there is;
  the mount sets the timer once.
\<close>

theorem prefetch_registration_witness:
  "disablePrefetch disabledProps \<and>
   prefetchDefaultPages disabledProps \<lparr> rendered = False, prefetchRoutes = [] \<rparr> [''store.search''] =
     (\<lparr> rendered = False, prefetchRoutes = [] \<rparr>, []) \<and>
   \<not> disablePrefetch storeProps \<and>
   snd (prefetchDefaultPages storeProps \<lparr> rendered = True, prefetchRoutes = [] \<rparr> [''store.search'']) =
     [ConsoleWarn ''prefetchDefaultPages should only be called before RenderProvider's render.''] \<and>
   fst (prefetchDefaultPages storeProps \<lparr> rendered = True, prefetchRoutes = [] \<rparr> [''store.search'']) =
     \<lparr> rendered = True, prefetchRoutes = [] \<rparr> \<and>
   prefetchDefaultPages storeProps \<lparr> rendered = False, prefetchRoutes = [] \<rparr>
      [''store.search'', ''store.search''] =
     (\<lparr> rendered = False, prefetchRoutes = [''store.search''] \<rparr>, []) \<and>
   filter isPrefetchTimer
     (snd (componentDidMount storeProps \<lparr> rendered = False, prefetchRoutes = [''store.search''] \<rparr>)) =
     [SetTimeoutExecPrefetchPages 20000] \<and>
   execPrefetchPages storeProps storeState \<lparr> rendered = True, prefetchRoutes = [''store.search''] \<rparr> =
     [FetchDefaultPages ''en-US'' 8 [''store.search'']]"
proof -
  let ?i = "\<lparr> rendered = False, prefetchRoutes = [''store.search''] \<rparr>"
  let ?e = "\<lparr> rendered = False, prefetchRoutes = [] \<rparr>"
  let ?m = "\<lparr> rendered = True, prefetchRoutes = [] \<rparr>"
  have dis: "disablePrefetch disabledProps"
    by (simp add: disablePrefetch_def disabledProps_def)
  have en: "\<not> disablePrefetch storeProps"
    by (simp add: disablePrefetch_def storeProps_def storeRuntime_def)
  from prefetch_registration [of disabledProps ?e "[''store.search'']" storeState legacyEnv "[]"] dis
  have off: "prefetchDefaultPages disabledProps ?e [''store.search''] = (?e, [])"
    by blast
  have late: "prefetchDefaultPages storeProps ?m [''store.search''] =
      (?m, [ConsoleWarn ''prefetchDefaultPages should only be called before RenderProvider's render.''])"
    using en by (simp add: prefetchDefaultPages_def)
  have r: "prefetchDefaultPages storeProps ?e [''store.search'', ''store.search''] = (?i, [])"
    using en by (simp add: prefetchDefaultPages_def setAdd_def)
  from prefetch_registration [of storeProps ?i "[]" storeState legacyEnv "[]"]
  have "filter isPrefetchTimer (snd (componentDidMount storeProps ?i)) =
          (if prefetchRoutes ?i \<noteq> [] then [SetTimeoutExecPrefetchPages 20000] else [])"
    by blast
  then have m: "filter isPrefetchTimer (snd (componentDidMount storeProps ?i)) =
          [SetTimeoutExecPrefetchPages 20000]"
    by simp
  have x: "execPrefetchPages storeProps storeState
             \<lparr> rendered = True, prefetchRoutes = [''store.search''] \<rparr> =
           [FetchDefaultPages ''en-US'' 8 [''store.search'']]"
    by (simp add: execPrefetchPages_def storeProps_def storeState_def initialState_def
          storeRuntime_def)
  from dis en off late r m x show ?thesis by simp
qed

subsection \<open>C8: updating one extension\<close>

text \<open>
  C8. \<open>updateExtension name extension\<close> sets the entry \<open>name\<close> of the extensions to
  \<open>extension\<close>, keeps every other entry and every other field of the state, and after
  the \<open>setState\<close> has completed calls \<open>sendInfoFromIframe\<close> if and only if \<open>name\<close> is not
  \<open>store/__overlay\<close>.
\<close>

theorem updateExtension_replaces_one:
  "extensions (fst (updateExtension name extension st)) name = Some extension \<and>
   (\<forall>k. k \<noteq> name \<longrightarrow> extensions (fst (updateExtension name extension st)) k = extensions st k) \<and>
   fst (updateExtension name extension st) =
     st\<lparr>extensions := extensions (fst (updateExtension name extension st))\<rparr> \<and>
   snd (updateExtension name extension st) =
     SetState (fst (updateExtension name extension st)) #
       (if name \<noteq> ''store/__overlay'' then [SendInfoFromIframe None] else [])"
  by (simp add: updateExtension_def Let_def)

text \<open>C8 at the overlay, which is not published, and at \<open>store.home\<close>, which is.\<close>

theorem updateExtension_replaces_one_witness:
  "extensions (fst (updateExtension ''store/__overlay'' (JStr ''overlay'') storeState)) ''store.home'' =
     Some (JObj []) \<and>
   snd (updateExtension ''store/__overlay'' (JStr ''overlay'') storeState) =
     [SetState (fst (updateExtension ''store/__overlay'' (JStr ''overlay'') storeState))] \<and>
   snd (updateExtension ''store.home'' (JStr ''home'') storeState) =
     [SetState (fst (updateExtension ''store.home'' (JStr ''home'') storeState)),
      SendInfoFromIframe None]"
proof -
  have e: "extensions storeState ''store.home'' = Some (JObj [])"
    by (simp add: storeState_def initialState_def storeRuntime_def)
  show ?thesis
    using updateExtension_replaces_one [of "''store/__overlay''" "JStr ''overlay''" storeState]
      updateExtension_replaces_one [of "''store.home''" "JStr ''home''" storeState] e
    by simp
qed

subsection \<open>C9: the debounced publication\<close>




subsection \<open>C10: the boot page is loaded from the start\<close>



end
